theory Spec2Isabelle
  imports Main "HOL-Library.AList" "HOL-Library.List_Lexorder" "HOL-Library.Char_ord"
begin

section \<open>Strings and paths\<close>

text \<open>
  Python's \<open>s.split(sep)\<close> for a one-character separator: the pieces between the
  separators, one more than there are separators, so that the empty string splits into
  one empty piece.
\<close>

fun split :: "char \<Rightarrow> string \<Rightarrow> string list" where
  "split sep [] = [[]]"
| "split sep (c # cs) =
     (if c = sep then [] # split sep cs
      else (c # hd (split sep cs)) # tl (split sep cs))"

text \<open>Python's \<open>sep.join(parts)\<close>.\<close>

fun join :: "string \<Rightarrow> string list \<Rightarrow> string" where
  "join sep [] = []"
| "join sep [p] = p"
| "join sep (p # q # ps) = p @ sep @ join sep (q # ps)"

definition startswith :: "string \<Rightarrow> string \<Rightarrow> bool" where
  "startswith s p \<longleftrightarrow> take (length p) s = p"

definition endswith :: "string \<Rightarrow> string \<Rightarrow> bool" where
  "endswith s p \<longleftrightarrow> length p \<le> length s \<and> drop (length s - length p) s = p"

text \<open>
  A project-relative file path, \<open>file_path.relative_to(project_root)\<close>, as the
  directory segments followed by the file name: \<open>rel_path.parts\<close> is
  \<open>dirs @ [name]\<close>, so \<open>parts[:-1]\<close> is \<open>dirs\<close> and \<open>parts[-1]\<close> is \<open>name\<close>.
  The path of a file is never empty.
\<close>

type_synonym rel_path = "string list \<times> string"

definition path_str :: "rel_path \<Rightarrow> string" where
  "path_str p = join ''/'' (fst p @ [snd p])"

section \<open>Module identity resolver\<close>

definition resolve_relative_import :: "rel_path \<Rightarrow> string \<Rightarrow> nat \<Rightarrow> string option" where
  "resolve_relative_import importing_file module level =
     (if level = 0 then Some module
      else
        let parts = fst importing_file in
        if level > length parts then None
        else
          let base_parts = take (length parts - level + 1) parts in
          if module \<noteq> [] then Some (join ''.'' (base_parts @ split CHR ''.'' module))
          else Some (join ''.'' base_parts))"

definition file_to_module :: "rel_path \<Rightarrow> string" where
  "file_to_module file_path =
     (let parts = fst file_path;
          name = snd file_path;
          name = (if endswith name ''.py'' then take (length name - 3) name else name)
      in if name = ''__init__'' then join ''.'' parts else join ''.'' (parts @ [name]))"

section \<open>Import extractor\<close>

text \<open>
  What \<open>ast.parse\<close> gives for one file: a syntax error, any other exception (the file
  cannot be opened or decoded), or the nodes of the tree in the order of \<open>ast.walk\<close>.
  Only the two import statements matter; an alias is a name with an optional \<open>asname\<close>.
\<close>

datatype ast_node =
    Import "(string \<times> string option) list" int
  | ImportFrom "string option" "(string \<times> string option) list" nat int
  | OtherNode

datatype parse_result =
    SyntaxError string
  | OtherException string
  | Parsed "ast_node list"

record source_file =
  sf_path :: rel_path
  sf_parse :: parse_result

record import_decl =
  imp_module :: string
  imp_alias :: "string option"
  imp_line :: int

record from_import_decl =
  fi_module :: string
  fi_name :: string
  fi_alias :: "string option"
  fi_level :: nat
  fi_line :: int

record file_data =
  fd_file :: rel_path
  fd_error :: "string option"
  fd_imports :: "import_decl list"
  fd_from_imports :: "from_import_decl list"

fun imports_of :: "ast_node \<Rightarrow> import_decl list" where
  "imports_of (Import names lineno) =
     map (\<lambda>(name, asname). \<lparr>imp_module = name, imp_alias = asname, imp_line = lineno\<rparr>) names"
| "imports_of _ = []"

fun from_imports_of :: "ast_node \<Rightarrow> from_import_decl list" where
  "from_imports_of (ImportFrom node_module names level lineno) =
     (let module = (case node_module of Some m \<Rightarrow> m | None \<Rightarrow> [])
      in map (\<lambda>(name, asname).
                \<lparr>fi_module = module, fi_name = name, fi_alias = asname,
                 fi_level = level, fi_line = lineno\<rparr>) names)"
| "from_imports_of _ = []"

definition extract_imports :: "source_file \<Rightarrow> file_data" where
  "extract_imports f =
     (case sf_parse f of
        SyntaxError e \<Rightarrow>
          \<lparr>fd_file = sf_path f, fd_error = Some (''Syntax error: '' @ e),
           fd_imports = [], fd_from_imports = []\<rparr>
      | OtherException e \<Rightarrow>
          \<lparr>fd_file = sf_path f, fd_error = Some e,
           fd_imports = [], fd_from_imports = []\<rparr>
      | Parsed nodes \<Rightarrow>
          \<lparr>fd_file = sf_path f, fd_error = None,
           fd_imports = concat (map imports_of nodes),
           fd_from_imports = concat (map from_imports_of nodes)\<rparr>)"

section \<open>Graph builder\<close>

text \<open>
  A Python dict is an association list in insertion order: \<open>AList.update\<close> replaces the
  value of a key that is there, in place, and appends a new key at the end.
  \<open>dd_add\<close> is \<open>d[k].add(x)\<close> on a \<open>defaultdict(set)\<close>.
\<close>

definition dd_get :: "('k \<times> 'v set) list \<Rightarrow> 'k \<Rightarrow> 'v set" where
  "dd_get d k = (case map_of d k of Some s \<Rightarrow> s | None \<Rightarrow> {})"

definition dd_add :: "'k \<Rightarrow> 'v \<Rightarrow> ('k \<times> 'v set) list \<Rightarrow> ('k \<times> 'v set) list" where
  "dd_add k x d = AList.update k (insert x (dd_get d k)) d"

record build_state =
  imports_graph :: "(string \<times> string set) list"
  imported_by :: "(string \<times> string set) list"
  external_deps :: "string set"

definition add_edge :: "string \<Rightarrow> string \<Rightarrow> build_state \<Rightarrow> build_state" where
  "add_edge importing_module internal st =
     st\<lparr>imports_graph := dd_add importing_module internal (imports_graph st),
        imported_by := dd_add internal importing_module (imported_by st)\<rparr>"

text \<open>
  The loop \<open>for internal in internal_modules: if full_module.startswith(internal): ...; break\<close>
  over the internal modules in the order the set yields them.
\<close>

fun link_first :: "string \<Rightarrow> string \<Rightarrow> string list \<Rightarrow> build_state \<Rightarrow> build_state" where
  "link_first importing_module full_module [] st = st"
| "link_first importing_module full_module (internal # rest) st =
     (if startswith full_module internal then add_edge importing_module internal st
      else link_first importing_module full_module rest st)"

definition process_import ::
  "string list \<Rightarrow> string \<Rightarrow> import_decl \<Rightarrow> build_state \<Rightarrow> build_state" where
  "process_import internal_modules importing_module imp st =
     (let full_module = imp_module imp;
          top_level = hd (split CHR ''.'' full_module)
      in if list_ex (\<lambda>internal. startswith full_module internal) internal_modules
         then link_first importing_module full_module internal_modules st
         else st\<lparr>external_deps := insert top_level (external_deps st)\<rparr>)"

definition process_from_import ::
  "string list \<Rightarrow> rel_path \<Rightarrow> string \<Rightarrow> from_import_decl \<Rightarrow> build_state \<Rightarrow> build_state" where
  "process_from_import internal_modules file_path importing_module imp st =
     (let module = fi_module imp;
          level = fi_level imp
      in if level > 0 then
           (case resolve_relative_import file_path module level of
              None \<Rightarrow> st
            | Some resolved \<Rightarrow>
                if resolved \<noteq> [] \<and> resolved \<in> set internal_modules
                then add_edge importing_module resolved st
                else st)
         else
           let top_level = (if module \<noteq> [] then hd (split CHR ''.'' module) else [])
           in if list_ex (\<lambda>internal. startswith module internal) internal_modules
              then link_first importing_module module internal_modules st
              else if top_level \<noteq> []
              then st\<lparr>external_deps := insert top_level (external_deps st)\<rparr>
              else st)"

text \<open>
  The source keeps the string of a file's relative path, in \<open>file_data['file']\<close> and
  as the key of \<open>file_to_module_map\<close>, and makes a path of it again for
  \<open>resolve_relative_import\<close>; the model keeps the path itself. The default of
  \<open>file_to_module_map.get(file_path, file_path)\<close> is that string.
\<close>

definition process_file ::
  "(rel_path \<times> string) list \<Rightarrow> string list \<Rightarrow> file_data \<Rightarrow> build_state \<Rightarrow> build_state" where
  "process_file file_to_module_map internal_modules data st =
     (if fd_error data \<noteq> None \<and> fd_imports data = [] then st
      else
        let file_path = fd_file data;
            importing_module =
              (case map_of file_to_module_map file_path of
                 Some m \<Rightarrow> m
               | None \<Rightarrow> path_str file_path);
            st = fold (process_import internal_modules importing_module) (fd_imports data) st
        in fold (process_from_import internal_modules file_path importing_module)
             (fd_from_imports data) st)"

record dep_graph =
  dg_modules :: "(string \<times> rel_path) list"
  dg_imports :: "(string \<times> string list) list"
  dg_imported_by :: "(string \<times> string list) list"
  dg_external_dependencies :: "string list"
  dg_file_imports :: "file_data list"

definition module_to_file_of :: "rel_path list \<Rightarrow> (string \<times> rel_path) list" where
  "module_to_file_of files = fold (\<lambda>f m. AList.update (file_to_module f) f m) files []"

definition file_to_module_map_of :: "rel_path list \<Rightarrow> (rel_path \<times> string) list" where
  "file_to_module_map_of files = fold (\<lambda>f m. AList.update f (file_to_module f) m) files []"

definition empty_state :: build_state where
  "empty_state = \<lparr>imports_graph = [], imported_by = [], external_deps = {}\<rparr>"

text \<open>
  \<open>internal_modules\<close> is a Python set of strings, and the builder iterates over it. The
  order in which a set yields its elements is not fixed by the language (string hashes are
  salted per process), so it is the parameter \<open>set_iter\<close>: it takes the keys of
  \<open>module_to_file\<close> and returns them in the order of iteration.
\<close>

definition build_state_of :: "(string list \<Rightarrow> string list) \<Rightarrow> source_file list \<Rightarrow> build_state" where
  "build_state_of set_iter files =
     (let paths = map sf_path files;
          module_to_file = module_to_file_of paths;
          file_to_module_map = file_to_module_map_of paths;
          all_imports = map extract_imports files;
          internal_modules = set_iter (map fst module_to_file)
      in fold (process_file file_to_module_map internal_modules) all_imports empty_state)"

definition build_dependency_graph :: "(string list \<Rightarrow> string list) \<Rightarrow> source_file list \<Rightarrow> dep_graph" where
  "build_dependency_graph set_iter files =
     (let st = build_state_of set_iter files
      in \<lparr>dg_modules = module_to_file_of (map sf_path files),
          dg_imports = map (\<lambda>(k, v). (k, sorted_list_of_set v)) (imports_graph st),
          dg_imported_by = map (\<lambda>(k, v). (k, sorted_list_of_set v)) (imported_by st),
          dg_external_dependencies = sorted_list_of_set (external_deps st),
          dg_file_imports = map extract_imports files\<rparr>)"

section \<open>Graph analyzer\<close>

subsection \<open>Cycle detection\<close>




definition graph_get :: "(string \<times> string list) list \<Rightarrow> string \<Rightarrow> string list" where
  "graph_get g node = (case map_of g node of Some ns \<Rightarrow> ns | None \<Rightarrow> [])"





subsection \<open>Orphans and hotspots\<close>

definition find_orphan_modules ::
  "(string \<times> rel_path) list \<Rightarrow> (string \<times> string list) list \<Rightarrow> (string \<times> string list) list
     \<Rightarrow> string list" where
  "find_orphan_modules module_to_file rev_index graph =
     filter (\<lambda>module.
               \<not> (endswith module ''__init__'' \<or> endswith module ''__main__'') \<and>
               (case map_of rev_index module of
                  None \<Rightarrow> True
                | Some importers \<Rightarrow> length importers = 0))
       (map fst module_to_file)"

record hotspot =
  hs_module :: string
  imported_by_count :: nat
  importers :: "string list"

text \<open>
  \<open>sorted(xs, key=k, reverse=True)\<close> is a stable sort by descending key, which is the
  stable insertion sort \<open>sort_key\<close> on the negated key.
\<close>

definition sorted_reverse :: "('a \<Rightarrow> nat) \<Rightarrow> 'a list \<Rightarrow> 'a list" where
  "sorted_reverse k xs = sort_key (\<lambda>x. - int (k x)) xs"

definition find_hotspots :: "(string \<times> string list) list \<Rightarrow> int \<Rightarrow> hotspot list" where
  "find_hotspots rev_index threshold =
     sorted_reverse imported_by_count
       (map (\<lambda>(module, imps).
               \<lparr>hs_module = module, imported_by_count = length imps, importers = imps\<rparr>)
          (filter (\<lambda>(module, imps). int (length imps) \<ge> threshold) rev_index))"

section \<open>Notions of the specification\<close>

text \<open>
  The name of a file without its extension \<open>.py\<close>. A well-formed file has a name
  that ends in \<open>.py\<close>, and neither its directory segments nor the name without the
  extension are empty or contain a dot. The module file \<open>p\<close> and the file \<open>q\<close> are in
  collision when \<open>q\<close> is the initializer of the package that has the name and the place
  of \<open>p\<close>: \<open>X.py\<close> and \<open>X/__init__.py\<close>.
\<close>

definition module_stem :: "rel_path \<Rightarrow> string" where
  "module_stem p = take (length (snd p) - 3) (snd p)"

definition well_formed_file :: "rel_path \<Rightarrow> bool" where
  "well_formed_file p \<longleftrightarrow>
     endswith (snd p) ''.py'' \<and>
     (\<forall>s \<in> set (fst p @ [module_stem p]). s \<noteq> [] \<and> CHR ''.'' \<notin> set s)"

definition initializer_collision :: "rel_path \<Rightarrow> rel_path \<Rightarrow> bool" where
  "initializer_collision p q \<longleftrightarrow>
     snd p \<noteq> ''__init__.py'' \<and> snd q = ''__init__.py'' \<and> fst q = fst p @ [module_stem p]"


text \<open>
  The internal modules, \<open>set(module_to_file.keys())\<close>, as a set; a file that failed to
  parse; and the same file list with every such file replaced by a file without imports.
\<close>

definition internal_modules_of :: "source_file list \<Rightarrow> string set" where
  "internal_modules_of files = set (map fst (module_to_file_of (map sf_path files)))"



text \<open>The module a file's imports are charged to, as \<open>process_file\<close> computes it.\<close>

definition importing_module_of :: "(rel_path \<times> string) list \<Rightarrow> file_data \<Rightarrow> string" where
  "importing_module_of ftm data =
     (case map_of ftm (fd_file data) of Some m \<Rightarrow> m | None \<Rightarrow> path_str (fd_file data))"

text \<open>Every key of a dict of sets, and every element of its values, lies in \<open>I\<close>.\<close>

definition entries_fin :: "'a set \<Rightarrow> ('a \<times> 'a set) list \<Rightarrow> bool" where
  "entries_fin I d \<longleftrightarrow> (\<forall>(k, v) \<in> set d. k \<in> I \<and> v \<subseteq> I \<and> finite v)"

text \<open>The entry that \<open>find_hotspots\<close> makes of one item of the reverse index.\<close>

definition hotspot_of :: "string \<times> string list \<Rightarrow> hotspot" where
  "hotspot_of e = \<lparr>hs_module = fst e, imported_by_count = length (snd e), importers = snd e\<rparr>"










section \<open>Facts about strings\<close>

lemma split_not_Nil: "split sep s \<noteq> []"
  by (induction s) auto

lemma join_split: "join [sep] (split sep s) = s"
proof (induction s)
  case Nil
  show ?case by simp
next
  case (Cons c cs)
  obtain p ps where sp: "split sep cs = p # ps"
    using split_not_Nil [of sep cs] by (cases "split sep cs") auto
  show ?case
  proof (cases "c = sep")
    case True
    with Cons sp show ?thesis by simp
  next
    case False
    with Cons sp show ?thesis by (cases ps) auto
  qed
qed

lemma join_append:
  "xs \<noteq> [] \<Longrightarrow> ys \<noteq> [] \<Longrightarrow> join sep (xs @ ys) = join sep xs @ sep @ join sep ys"
proof (induction sep xs rule: join.induct)
  case (2 sep p)
  then show ?case by (cases ys) auto
qed auto

lemma split_append_sep:
  "sep \<notin> set p \<Longrightarrow> split sep (p @ sep # s) = p # split sep s"
  by (induction p) auto

lemma split_no_sep: "sep \<notin> set p \<Longrightarrow> split sep p = [p]"
  by (induction p) auto

lemma split_join:
  "xs \<noteq> [] \<Longrightarrow> \<forall>x \<in> set xs. sep \<notin> set x \<Longrightarrow> split sep (join [sep] xs) = xs"
proof (induction "[sep]" xs rule: join.induct)
  case (3 p q ps)
  then show ?case by (simp add: split_append_sep)
qed (auto simp: split_no_sep)

lemma endswith_py: "endswith s ''.py'' \<Longrightarrow> take (length s - 3) s @ ''.py'' = s"
proof -
  assume "endswith s ''.py''"
  then have "drop (length s - 3) s = ''.py''"
    by (simp add: endswith_def numeral_3_eq_3)
  then show ?thesis by (metis append_take_drop_id)
qed

lemma file_to_module_init:
  "snd p = ''__init__.py'' \<Longrightarrow> file_to_module p = join ''.'' (fst p)"
  by (simp add: file_to_module_def endswith_def)

lemma file_to_module_module:
  assumes e: "endswith (snd p) ''.py''" and n: "snd p \<noteq> ''__init__.py''"
  shows "file_to_module p = join ''.'' (fst p @ [module_stem p])"
proof -
  have "module_stem p @ ''.py'' = snd p"
    using endswith_py [OF e] by (simp add: module_stem_def)
  with n have "module_stem p \<noteq> ''__init__''" by auto
  with e show ?thesis by (simp add: file_to_module_def Let_def module_stem_def)
qed

lemma join_inj:
  assumes xs: "\<forall>s \<in> set xs. s \<noteq> [] \<and> sep \<notin> set s"
    and ys: "\<forall>s \<in> set ys. s \<noteq> [] \<and> sep \<notin> set s"
    and eq: "join [sep] xs = join [sep] ys"
  shows "xs = ys"
proof -
  have nil: "zs = []" if "join [sep] zs = []" "\<forall>s \<in> set zs. s \<noteq> [] \<and> sep \<notin> set s" for zs
  proof (rule ccontr)
    assume "zs \<noteq> []"
    then have "split sep (join [sep] zs) = zs" using that(2) by (simp add: split_join)
    with that(1) have "zs = [[]]" by (metis split.simps(1))
    with that(2) show False by simp
  qed
  show ?thesis
  proof (cases "xs = [] \<or> ys = []")
    case True
    with eq nil [OF _ xs] nil [OF _ ys] show ?thesis by auto
  next
    case False
    then have "split sep (join [sep] xs) = xs" "split sep (join [sep] ys) = ys"
      using xs ys by (simp_all add: split_join)
    with eq show ?thesis by metis
  qed
qed

lemma stem_inj:
  assumes "endswith (snd p) ''.py''" "endswith (snd q) ''.py''" "module_stem p = module_stem q"
  shows "snd p = snd q"
proof -
  have "module_stem p @ ''.py'' = snd p" "module_stem q @ ''.py'' = snd q"
    using assms(1,2) endswith_py [of "snd p"] endswith_py [of "snd q"]
    by (simp_all add: module_stem_def)
  with assms(3) show ?thesis by metis
qed

lemma file_to_module_collisions:
  assumes p: "well_formed_file p" and q: "well_formed_file q"
  shows "file_to_module p = file_to_module q \<longleftrightarrow>
           p = q \<or> initializer_collision p q \<or> initializer_collision q p"
proof -
  from p have ep: "endswith (snd p) ''.py''"
    and sp: "\<forall>s \<in> set (fst p @ [module_stem p]). s \<noteq> [] \<and> CHR ''.'' \<notin> set s"
    by (simp_all add: well_formed_file_def)
  from q have eq: "endswith (snd q) ''.py''"
    and sq: "\<forall>s \<in> set (fst q @ [module_stem q]). s \<noteq> [] \<and> CHR ''.'' \<notin> set s"
    by (simp_all add: well_formed_file_def)
  from sp have dp: "\<forall>s \<in> set (fst p). s \<noteq> [] \<and> CHR ''.'' \<notin> set s" by simp
  from sq have dq: "\<forall>s \<in> set (fst q). s \<noteq> [] \<and> CHR ''.'' \<notin> set s" by simp
  consider (ii) "snd p = ''__init__.py''" "snd q = ''__init__.py''"
    | (mm) "snd p \<noteq> ''__init__.py''" "snd q \<noteq> ''__init__.py''"
    | (mi) "snd p \<noteq> ''__init__.py''" "snd q = ''__init__.py''"
    | (im) "snd p = ''__init__.py''" "snd q \<noteq> ''__init__.py''"
    by blast
  then show ?thesis
  proof cases
    case ii
    have l: "file_to_module p = file_to_module q \<longleftrightarrow> fst p = fst q"
      using join_inj [OF dp dq] by (auto simp: file_to_module_init [OF ii(1)] file_to_module_init [OF ii(2)])
    have r: "p = q \<or> initializer_collision p q \<or> initializer_collision q p \<longleftrightarrow> fst p = fst q"
      using ii by (simp add: initializer_collision_def prod_eq_iff)
    from l r show ?thesis by blast
  next
    case mm
    have l: "file_to_module p = file_to_module q \<longleftrightarrow> fst p = fst q \<and> module_stem p = module_stem q"
      using join_inj [OF sp sq]
      by (auto simp: file_to_module_module [OF ep mm(1)] file_to_module_module [OF eq mm(2)])
    have "module_stem p = module_stem q \<longleftrightarrow> snd p = snd q"
      using stem_inj [OF ep eq] by (auto simp: module_stem_def)
    then have r: "p = q \<or> initializer_collision p q \<or> initializer_collision q p \<longleftrightarrow>
                   fst p = fst q \<and> module_stem p = module_stem q"
      using mm by (simp add: initializer_collision_def prod_eq_iff)
    from l r show ?thesis by blast
  next
    case mi
    have l: "file_to_module p = file_to_module q \<longleftrightarrow> fst q = fst p @ [module_stem p]"
      using join_inj [OF sp dq]
      by (auto simp: file_to_module_module [OF ep mi(1)] file_to_module_init [OF mi(2)])
    have "p \<noteq> q" using mi by auto
    then have r: "p = q \<or> initializer_collision p q \<or> initializer_collision q p \<longleftrightarrow>
                   fst q = fst p @ [module_stem p]"
      using mi by (simp add: initializer_collision_def)
    from l r show ?thesis by blast
  next
    case im
    have l: "file_to_module p = file_to_module q \<longleftrightarrow> fst p = fst q @ [module_stem q]"
      using join_inj [OF dp sq]
      by (auto simp: file_to_module_module [OF eq im(2)] file_to_module_init [OF im(1)])
    have "p \<noteq> q" using im by auto
    then have r: "p = q \<or> initializer_collision p q \<or> initializer_collision q p \<longleftrightarrow>
                   fst p = fst q @ [module_stem q]"
      using im by (simp add: initializer_collision_def)
    from l r show ?thesis by blast
  qed
qed

lemma map_of_fold_update_last:
  "map_of (fold (\<lambda>f m. AList.update (g f) f m) ps m0) k =
     (case filter (\<lambda>f. g f = k) ps of [] \<Rightarrow> map_of m0 k | f # fs \<Rightarrow> Some (last (f # fs)))"
proof (induction ps arbitrary: m0)
  case Nil
  show ?case by simp
next
  case (Cons x xs)
  show ?case
  proof (cases "g x = k")
    case True
    then show ?thesis
      by (cases "filter (\<lambda>f. g f = k) xs") (simp_all add: Cons update_conv')
  next
    case False
    then show ?thesis
      by (cases "filter (\<lambda>f. g f = k) xs") (simp_all add: Cons update_conv')
  qed
qed

lemma distinct_fold_update:
  "distinct (map fst m0) \<Longrightarrow> distinct (map fst (fold (\<lambda>f m. AList.update (g f) (h f) m) ps m0))"
  by (induction ps arbitrary: m0) (simp_all add: distinct_update)

lemma modules_last_wins:
  "distinct (map fst (module_to_file_of ps)) \<and>
   map_of (module_to_file_of ps) m =
     (case filter (\<lambda>f. file_to_module f = m) ps of [] \<Rightarrow> None | f # fs \<Rightarrow> Some (last (f # fs)))"
  by (simp add: module_to_file_of_def map_of_fold_update_last distinct_fold_update
        split: list.splits)




section \<open>Facts about the builder\<close>

lemma set_update_subset: "set (AList.update k v al) \<subseteq> insert (k, v) (set al)"
  by (induction al) auto

lemma dd_get_dd_add:
  "dd_get (dd_add k x d) k' = (if k' = k then insert x (dd_get d k) else dd_get d k')"
  by (simp add: dd_get_def dd_add_def update_conv')


lemma link_first_ex:
  "\<exists>i \<in> set ims. startswith m i \<Longrightarrow>
   \<exists>i \<in> set ims. startswith m i \<and> link_first a m ims st = add_edge a i st"
  by (induction ims) auto

lemma process_import_cases:
  "(\<exists>i \<in> set ims. startswith (imp_module imp) i \<and> process_import ims a imp st = add_edge a i st) \<or>
   (\<exists>x. process_import ims a imp st = st\<lparr>external_deps := insert x (external_deps st)\<rparr>)"
proof (cases "\<exists>i \<in> set ims. startswith (imp_module imp) i")
  case True
  from link_first_ex [OF True] True show ?thesis
    by (simp add: process_import_def Let_def list_ex_iff)
next
  case False
  then show ?thesis by (auto simp add: process_import_def Let_def list_ex_iff)
qed

lemma process_from_import_cases:
  "(\<exists>i \<in> set ims. process_from_import ims fp a imp st = add_edge a i st) \<or>
   process_from_import ims fp a imp st = st \<or>
   (\<exists>x. process_from_import ims fp a imp st = st\<lparr>external_deps := insert x (external_deps st)\<rparr>)"
proof (cases "fi_level imp > 0")
  case True
  then show ?thesis
    by (auto simp: process_from_import_def Let_def split: option.splits)
next
  case False
  show ?thesis
  proof (cases "\<exists>i \<in> set ims. startswith (fi_module imp) i")
    case True
    from link_first_ex [OF True, of a st] True False show ?thesis
      by (auto simp add: process_from_import_def Let_def list_ex_iff)
  next
    case nm: False
    with False show ?thesis by (auto simp add: process_from_import_def Let_def list_ex_iff)
  qed
qed

lemma process_file_invariant:
  assumes st: "P st"
    and edge: "\<And>i s. i \<in> set ims \<Longrightarrow> P s \<Longrightarrow> P (add_edge (importing_module_of ftm data) i s)"
    and ext: "\<And>x s. P s \<Longrightarrow> P (s\<lparr>external_deps := insert x (external_deps s)\<rparr>)"
  shows "P (process_file ftm ims data st)"
proof (cases "fd_error data \<noteq> None \<and> fd_imports data = []")
  case True
  with st show ?thesis by (simp add: process_file_def)
next
  case False
  let ?a = "importing_module_of ftm data"
  have 1: "P (process_import ims ?a imp s)" if "P s" for imp s
    using process_import_cases [of ims imp ?a s] edge ext that by metis
  have 2: "P (process_from_import ims fp ?a imp s)" if "P s" for imp s fp
    using process_from_import_cases [of ims fp ?a imp s] edge ext that by metis
  have "P (fold (process_import ims ?a) (fd_imports data) st)"
    by (rule fold_invariant [where Q = "\<lambda>x. True"]) (simp_all add: st 1)
  then have r: "P (fold (process_from_import ims (fd_file data) ?a) (fd_from_imports data)
                 (fold (process_import ims ?a) (fd_imports data) st))"
    by (rule fold_invariant [where Q = "\<lambda>x. True", rotated]) (simp_all add: 2)
  have "process_file ftm ims data st =
          fold (process_from_import ims (fd_file data) ?a) (fd_from_imports data)
            (fold (process_import ims ?a) (fd_imports data) st)"
    using False by (cases "fd_error data") (simp_all add: process_file_def Let_def importing_module_of_def)
  with r show ?thesis by simp
qed

lemma keys_fold_update:
  "fst ` set (fold (\<lambda>f m. AList.update (g f) (h f) m) fs m0) = g ` set fs \<union> fst ` set m0"
  by (induction fs arbitrary: m0) (auto simp: dom_update)

lemma map_of_fold_update:
  "map_of (fold (\<lambda>f m. AList.update f (h f) m) fs m0) p =
     (if p \<in> set fs then Some (h p) else map_of m0 p)"
  by (induction fs arbitrary: m0) (auto simp: update_conv')

lemma keys_module_to_file_of: "fst ` set (module_to_file_of ps) = file_to_module ` set ps"
  by (simp add: module_to_file_of_def keys_fold_update)

lemma map_of_file_to_module_map_of:
  "map_of (file_to_module_map_of ps) p = (if p \<in> set ps then Some (file_to_module p) else None)"
  by (simp add: file_to_module_map_of_def map_of_fold_update)

lemma fd_file_extract_imports: "fd_file (extract_imports f) = sf_path f"
  by (simp add: extract_imports_def split: parse_result.splits)

lemma importing_module_internal:
  "f \<in> set files \<Longrightarrow>
   importing_module_of (file_to_module_map_of (map sf_path files)) (extract_imports f)
     = file_to_module (sf_path f)"
  by (simp add: importing_module_of_def map_of_file_to_module_map_of fd_file_extract_imports)

lemma build_state_invariant:
  assumes st: "P empty_state"
    and edge: "\<And>f i s. f \<in> set files \<Longrightarrow>
                 i \<in> set (set_iter (map fst (module_to_file_of (map sf_path files)))) \<Longrightarrow>
                 P s \<Longrightarrow> P (add_edge (file_to_module (sf_path f)) i s)"
    and ext: "\<And>x s. P s \<Longrightarrow> P (s\<lparr>external_deps := insert x (external_deps s)\<rparr>)"
  shows "P (build_state_of set_iter files)"
proof -
  let ?ftm = "file_to_module_map_of (map sf_path files)"
  let ?ims = "set_iter (map fst (module_to_file_of (map sf_path files)))"
  have "P (fold (process_file ?ftm ?ims) (map extract_imports files) empty_state)"
  proof (rule fold_invariant [where Q = "\<lambda>d. d \<in> extract_imports ` set files"])
    show "P empty_state" by (rule st)
  next
    fix x assume "x \<in> set (map extract_imports files)"
    then show "x \<in> extract_imports ` set files" by simp
  next
    fix d s assume d: "d \<in> extract_imports ` set files" and s: "P s"
    then obtain f where f: "f \<in> set files" "d = extract_imports f" by auto
    show "P (process_file ?ftm ?ims d s)"
    proof (rule process_file_invariant [where P = P, OF s])
      fix i s' assume "i \<in> set ?ims" "P s'"
      then show "P (add_edge (importing_module_of ?ftm d) i s')"
        using edge [OF f(1)] f(2) importing_module_internal [OF f(1)] by simp
    next
      fix x s' assume "P s'"
      then show "P (s'\<lparr>external_deps := insert x (external_deps s')\<rparr>)" by (rule ext)
    qed
  qed
  then show ?thesis by (simp add: build_state_of_def Let_def)
qed

lemma graph_get_sorted:
  "graph_get (map (\<lambda>(k, v). (k, sorted_list_of_set v)) d) k = sorted_list_of_set (dd_get d k)"
  by (simp add: graph_get_def dd_get_def map_of_map split: option.splits)

lemma add_edge_fields:
  "imports_graph (add_edge a b st) = dd_add a b (imports_graph st)"
  "imported_by (add_edge a b st) = dd_add b a (imported_by st)"
  "external_deps (add_edge a b st) = external_deps st"
  by (simp_all add: add_edge_def)

lemma build_state_consistent:
  "(\<forall>A B. B \<in> dd_get (imports_graph (build_state_of set_iter files)) A \<longleftrightarrow>
          A \<in> dd_get (imported_by (build_state_of set_iter files)) B) \<and>
   (\<forall>k. finite (dd_get (imports_graph (build_state_of set_iter files)) k)) \<and>
   (\<forall>k. finite (dd_get (imported_by (build_state_of set_iter files)) k))"
  (is "?P (build_state_of set_iter files)")
proof (rule build_state_invariant [where P = ?P])
  show "?P empty_state" by (simp add: empty_state_def dd_get_def)
next
  fix f i s assume "?P s"
  then show "?P (add_edge (file_to_module (sf_path f)) i s)"
    by (auto simp: add_edge_fields dd_get_dd_add)
next
  fix x s assume "?P s"
  then show "?P (s\<lparr>external_deps := insert x (external_deps s)\<rparr>)" by simp
qed

lemma entries_fin_dd_add:
  assumes "entries_fin I d" "k \<in> I" "x \<in> I"
  shows "entries_fin I (dd_add k x d)"
proof -
  have "dd_get d k \<subseteq> I \<and> finite (dd_get d k)"
    using assms(1) by (auto simp: entries_fin_def dd_get_def split: option.splits dest: map_of_SomeD)
  with assms show ?thesis
    using set_update_subset [of k "insert x (dd_get d k)" d]
    by (auto simp: entries_fin_def dd_add_def)
qed

lemma build_state_internal:
  assumes "set (set_iter (map fst (module_to_file_of (map sf_path files))))
             \<subseteq> fst ` set (module_to_file_of (map sf_path files))"
  shows "entries_fin (fst ` set (module_to_file_of (map sf_path files)))
           (imports_graph (build_state_of set_iter files)) \<and>
         entries_fin (fst ` set (module_to_file_of (map sf_path files)))
           (imported_by (build_state_of set_iter files))"
  (is "?P (build_state_of set_iter files)")
proof (rule build_state_invariant [where P = ?P])
  show "?P empty_state" by (simp add: empty_state_def entries_fin_def)
next
  fix f i s
  assume f: "f \<in> set files"
    and i: "i \<in> set (set_iter (map fst (module_to_file_of (map sf_path files))))"
    and s: "?P s"
  from f have "file_to_module (sf_path f) \<in> fst ` set (module_to_file_of (map sf_path files))"
    by (simp add: keys_module_to_file_of)
  moreover from i assms have "i \<in> fst ` set (module_to_file_of (map sf_path files))" by blast
  ultimately show "?P (add_edge (file_to_module (sf_path f)) i s)"
    using s by (simp add: add_edge_fields entries_fin_dd_add)
next
  fix x s assume "?P s"
  then show "?P (s\<lparr>external_deps := insert x (external_deps s)\<rparr>)" by simp
qed

lemma entries_sorted:
  assumes "entries_fin I d"
  shows "\<forall>(k, vs) \<in> set (map (\<lambda>(k, v). (k, sorted_list_of_set v)) d). k \<in> I \<and> set vs \<subseteq> I"
proof -
  have "k \<in> I \<and> set (sorted_list_of_set v) \<subseteq> I" if "(k, v) \<in> set d" for k v
  proof -
    from assms that have "k \<in> I" "v \<subseteq> I" "finite v" by (auto simp: entries_fin_def)
    then show ?thesis by simp
  qed
  then show ?thesis by auto
qed





lemma find_hotspots_alt:
  "find_hotspots ri t = sorted_reverse imported_by_count
     (map hotspot_of (filter (\<lambda>e. t \<le> int (length (snd e))) ri))"
  by (simp add: find_hotspots_def hotspot_of_def [abs_def] case_prod_unfold)

section \<open>Facts about the traversal\<close>





















section \<open>Relative imports\<close>

text \<open>
  Claim C5. A relative import of level \<open>level > 0\<close> from a file whose package path has
  \<open>d\<close> segments fails when \<open>level > d\<close>; otherwise it resolves to the package path
  without its last \<open>level - 1\<close> segments, joined by dots, followed by a dot and the
  import's dotted path when that path is not empty. With an empty dotted path the result
  is the package identifier itself. The builder drops an import whose resolution fails:
  the state stays as it is, with no edge and no external name. An import that resolves
  gets its edge when the resolved identifier is an internal module, with an empty dotted
  path as well, and changes nothing otherwise.
\<close>

theorem C5_resolve_relative_import:
  assumes "level > 0"
  shows "resolve_relative_import (dirs, name) module level =
     (if level > length dirs then None
      else Some (join ''.'' (take (length dirs - (level - 1)) dirs) @
                 (if module = [] then [] else ''.'' @ module))) \<and>
   process_from_import ims (dirs, name) a
     \<lparr>fi_module = module, fi_name = n, fi_alias = al, fi_level = level, fi_line = ln\<rparr> st =
     (if level > length dirs then st
      else if join ''.'' (take (length dirs - (level - 1)) dirs) @
                (if module = [] then [] else ''.'' @ module) \<in> set ims - {[]}
      then add_edge a (join ''.'' (take (length dirs - (level - 1)) dirs) @
                (if module = [] then [] else ''.'' @ module)) st
      else st)"
proof -
  let ?r = "join ''.'' (take (length dirs - (level - 1)) dirs) @
              (if module = [] then [] else ''.'' @ module)"
  have res: "resolve_relative_import (dirs, name) module level =
     (if level > length dirs then None else Some ?r)"
  proof (cases "level > length dirs")
    case True
    with assms show ?thesis by (simp add: resolve_relative_import_def)
  next
    case False
    let ?base = "take (length dirs - (level - 1)) dirs"
    from False assms have eq: "length dirs - level + 1 = length dirs - (level - 1)" by arith
    from False assms have ne: "?base \<noteq> []" by (cases dirs) auto
    have "join ''.'' (?base @ split CHR ''.'' module) = join ''.'' ?base @ ''.'' @ module"
      using join_append [OF ne split_not_Nil, of "''.''" "CHR ''.''" module]
      by (simp add: join_split)
    with False assms eq show ?thesis
      by (simp add: resolve_relative_import_def Let_def)
  qed
  have "process_from_import ims (dirs, name) a
     \<lparr>fi_module = module, fi_name = n, fi_alias = al, fi_level = level, fi_line = ln\<rparr> st =
     (if level > length dirs then st
      else if ?r \<in> set ims - {[]} then add_edge a ?r st else st)"
    using assms by (simp add: process_from_import_def res)
  with res show ?thesis by (intro conjI)
qed

theorem C5_resolve_relative_import_witness:
  "(0::nat) < 2 \<and>
   resolve_relative_import ([''pkg'', ''sub''], ''mod.py'') [] 2 = Some ''pkg'' \<and>
   process_from_import [''pkg'', ''pkg.sub.mod''] ([''pkg'', ''sub''], ''mod.py'') ''pkg.sub.mod''
     \<lparr>fi_module = [], fi_name = ''sibling'', fi_alias = None, fi_level = 2, fi_line = 1\<rparr>
     empty_state = add_edge ''pkg.sub.mod'' ''pkg'' empty_state \<and>
   resolve_relative_import ([''pkg'', ''sub''], ''mod.py'') ''sibling'' 2 = Some ''pkg.sibling'' \<and>
   process_from_import [''pkg'', ''pkg.sub.mod''] ([''pkg'', ''sub''], ''mod.py'') ''pkg.sub.mod''
     \<lparr>fi_module = ''sibling'', fi_name = ''f'', fi_alias = None, fi_level = 2, fi_line = 1\<rparr>
     empty_state = empty_state \<and>
   resolve_relative_import ([''pkg'', ''sub''], ''mod.py'') [] 3 = None \<and>
   process_from_import [''pkg'', ''pkg.sub.mod''] ([''pkg'', ''sub''], ''mod.py'') ''pkg.sub.mod''
     \<lparr>fi_module = [], fi_name = ''x'', fi_alias = None, fi_level = 3, fi_line = 1\<rparr>
     empty_state = empty_state"
  using C5_resolve_relative_import
      [where level = 2 and dirs = "[''pkg'', ''sub'']" and name = "''mod.py''" and module = "[]"
         and ims = "[''pkg'', ''pkg.sub.mod'']" and a = "''pkg.sub.mod''" and n = "''sibling''"
         and al = None and ln = 1 and st = empty_state]
    C5_resolve_relative_import
      [where level = 2 and dirs = "[''pkg'', ''sub'']" and name = "''mod.py''"
         and module = "''sibling''"
         and ims = "[''pkg'', ''pkg.sub.mod'']" and a = "''pkg.sub.mod''" and n = "''f''"
         and al = None and ln = 1 and st = empty_state]
    C5_resolve_relative_import
      [where level = 3 and dirs = "[''pkg'', ''sub'']" and name = "''mod.py''" and module = "[]"
         and ims = "[''pkg'', ''pkg.sub.mod'']" and a = "''pkg.sub.mod''" and n = "''x''"
         and al = None and ln = 1 and st = empty_state]
  by simp

section \<open>Files and module identifiers\<close>

text \<open>
  Claim C7, as the claim states it, fails: the module file \<open>pkg.py\<close> and the package
  initializer \<open>pkg/__init__.py\<close> are distinct files with the one identifier \<open>pkg\<close>, and
  the builder keeps a single entry for them in \<open>modules\<close> with no sign of the collision.
  So do \<open>a.b.py\<close> and \<open>a/b.py\<close>, where a file name has a dot of its own, and
  \<open>.py\<close> and \<open>__init__.py\<close>, where nothing is left of a name without the extension.
\<close>

theorem C7_collision_counterexample:
  "([], ''pkg.py'') \<noteq> ([''pkg''], ''__init__.py'') \<and>
   file_to_module ([], ''pkg.py'') = file_to_module ([''pkg''], ''__init__.py'') \<and>
   dg_modules (build_dependency_graph id
     [\<lparr>sf_path = ([], ''pkg.py''), sf_parse = Parsed []\<rparr>,
      \<lparr>sf_path = ([''pkg''], ''__init__.py''), sf_parse = Parsed []\<rparr>]) =
     [(''pkg'', ([''pkg''], ''__init__.py''))] \<and>
   ([], ''a.b.py'') \<noteq> ([''a''], ''b.py'') \<and>
   file_to_module ([], ''a.b.py'') = file_to_module ([''a''], ''b.py'') \<and>
   dg_modules (build_dependency_graph id
     [\<lparr>sf_path = ([], ''a.b.py''), sf_parse = Parsed []\<rparr>,
      \<lparr>sf_path = ([''a''], ''b.py''), sf_parse = Parsed []\<rparr>]) =
     [(''a.b'', ([''a''], ''b.py''))] \<and>
   (([], ''.py'') :: rel_path) \<noteq> ([], ''__init__.py'') \<and>
   file_to_module ([], ''.py'') = file_to_module ([], ''__init__.py'')"
  by code_simp

text \<open>
  Claim C7, amended. Two well-formed files have the same module identifier exactly when
  they are the same file or one is the module file \<open>X.py\<close> and the other the initializer
  \<open>X/__init__.py\<close> beside it. The builder holds every identifier once in \<open>modules\<close>,
  and the file it records for an identifier is the last file of the list that has this
  identifier.
\<close>

theorem C7_file_to_module_collisions:
  "(well_formed_file p \<and> well_formed_file q \<longrightarrow>
      (file_to_module p = file_to_module q \<longleftrightarrow>
         p = q \<or> initializer_collision p q \<or> initializer_collision q p)) \<and>
   distinct (map fst (dg_modules (build_dependency_graph set_iter files))) \<and>
   map_of (dg_modules (build_dependency_graph set_iter files)) m =
     (case filter (\<lambda>f. file_to_module f = m) (map sf_path files) of
        [] \<Rightarrow> None
      | f # fs \<Rightarrow> Some (last (f # fs)))"
proof (intro conjI impI)
  assume "well_formed_file p \<and> well_formed_file q"
  then show "file_to_module p = file_to_module q \<longleftrightarrow>
         p = q \<or> initializer_collision p q \<or> initializer_collision q p"
    using file_to_module_collisions [of p q] by blast
next
  show "distinct (map fst (dg_modules (build_dependency_graph set_iter files)))"
    using modules_last_wins [of "map sf_path files"]
    by (simp add: build_dependency_graph_def Let_def)
next
  show "map_of (dg_modules (build_dependency_graph set_iter files)) m =
     (case filter (\<lambda>f. file_to_module f = m) (map sf_path files) of
        [] \<Rightarrow> None
      | f # fs \<Rightarrow> Some (last (f # fs)))"
    using modules_last_wins [of "map sf_path files" m]
    by (simp add: build_dependency_graph_def Let_def)
qed

theorem C7_file_to_module_collisions_witness:
  "well_formed_file ([''pkg''], ''mod.py'') \<and> well_formed_file ([''pkg''], ''__init__.py'') \<and>
   well_formed_file ([], ''pkg.py'') \<and>
   file_to_module ([''pkg''], ''mod.py'') \<noteq> file_to_module ([''pkg''], ''__init__.py'') \<and>
   file_to_module ([], ''pkg.py'') = file_to_module ([''pkg''], ''__init__.py'') \<and>
   map_of (dg_modules (build_dependency_graph id
     [\<lparr>sf_path = ([], ''pkg.py''), sf_parse = Parsed []\<rparr>,
      \<lparr>sf_path = ([''pkg''], ''__init__.py''), sf_parse = Parsed []\<rparr>])) ''pkg'' =
     Some ([''pkg''], ''__init__.py'') \<and>
   map_of (dg_modules (build_dependency_graph id
     [\<lparr>sf_path = ([''pkg''], ''__init__.py''), sf_parse = Parsed []\<rparr>,
      \<lparr>sf_path = ([], ''pkg.py''), sf_parse = Parsed []\<rparr>])) ''pkg'' =
     Some ([], ''pkg.py'')"
proof -
  let ?mod = "([''pkg''], ''mod.py'')" and ?init = "([''pkg''], ''__init__.py'')"
  let ?top = "([], ''pkg.py'') :: rel_path"
  let ?F1 = "[\<lparr>sf_path = ?top, sf_parse = Parsed []\<rparr>, \<lparr>sf_path = ?init, sf_parse = Parsed []\<rparr>]"
  let ?F2 = "[\<lparr>sf_path = ?init, sf_parse = Parsed []\<rparr>, \<lparr>sf_path = ?top, sf_parse = Parsed []\<rparr>]"
  have w: "well_formed_file ?mod" "well_formed_file ?init" "well_formed_file ?top"
    by (simp_all add: well_formed_file_def endswith_def module_stem_def)
  have n: "\<not> (?mod = ?init \<or> initializer_collision ?mod ?init \<or> initializer_collision ?init ?mod)"
    by (simp add: initializer_collision_def module_stem_def)
  have c: "initializer_collision ?top ?init"
    by (simp add: initializer_collision_def module_stem_def)
  have f: "file_to_module ?top = ''pkg''" "file_to_module ?init = ''pkg''"
    by (simp_all add: file_to_module_def endswith_def)
  have a: "file_to_module ?mod \<noteq> file_to_module ?init"
    using C7_file_to_module_collisions [where p = ?mod and q = ?init, THEN conjunct1] w n
    by blast
  have b: "file_to_module ?top = file_to_module ?init"
    using C7_file_to_module_collisions [where p = ?top and q = ?init, THEN conjunct1] w c
    by blast
  have d: "map_of (dg_modules (build_dependency_graph id ?F1)) ''pkg'' = Some ?init"
    using C7_file_to_module_collisions
      [where set_iter = id and files = ?F1 and m = "''pkg''", THEN conjunct2, THEN conjunct2] f
    by simp
  have e: "map_of (dg_modules (build_dependency_graph id ?F2)) ''pkg'' = Some ?top"
    using C7_file_to_module_collisions
      [where set_iter = id and files = ?F2 and m = "''pkg''", THEN conjunct2, THEN conjunct2] f
    by simp
  from w a b d e show ?thesis by (intro conjI)
qed

section \<open>Absolute imports\<close>




section \<open>Determinism\<close>

text \<open>
  Claim C3. The files \<open>a/__init__.py\<close>, \<open>a/b.py\<close> and \<open>m.py\<close>, where \<open>m.py\<close> has
  the one statement \<open>import a.b\<close>: the import matches the two internal modules \<open>a\<close>
  and \<open>a.b\<close>, and the builder takes the first that the set \<open>internal_modules\<close>
  yields. Both \<open>id\<close> and \<open>rev\<close> are orders in which a set with these elements may
  yield them, and the two give different graphs and different reverse indexes.
\<close>

theorem C3_iteration_order_changes_graph:
  "dg_imports (build_dependency_graph id
     [\<lparr>sf_path = ([''a''], ''__init__.py''), sf_parse = Parsed []\<rparr>,
      \<lparr>sf_path = ([''a''], ''b.py''), sf_parse = Parsed []\<rparr>,
      \<lparr>sf_path = ([], ''m.py''), sf_parse = Parsed [Import [(''a.b'', None)] 1]\<rparr>]) = [(''m'', [''a''])] \<and>
   dg_imports (build_dependency_graph rev
     [\<lparr>sf_path = ([''a''], ''__init__.py''), sf_parse = Parsed []\<rparr>,
      \<lparr>sf_path = ([''a''], ''b.py''), sf_parse = Parsed []\<rparr>,
      \<lparr>sf_path = ([], ''m.py''), sf_parse = Parsed [Import [(''a.b'', None)] 1]\<rparr>]) = [(''m'', [''a.b''])] \<and>
   dg_imported_by (build_dependency_graph id
     [\<lparr>sf_path = ([''a''], ''__init__.py''), sf_parse = Parsed []\<rparr>,
      \<lparr>sf_path = ([''a''], ''b.py''), sf_parse = Parsed []\<rparr>,
      \<lparr>sf_path = ([], ''m.py''), sf_parse = Parsed [Import [(''a.b'', None)] 1]\<rparr>]) = [(''a'', [''m''])] \<and>
   dg_imported_by (build_dependency_graph rev
     [\<lparr>sf_path = ([''a''], ''__init__.py''), sf_parse = Parsed []\<rparr>,
      \<lparr>sf_path = ([''a''], ''b.py''), sf_parse = Parsed []\<rparr>,
      \<lparr>sf_path = ([], ''m.py''), sf_parse = Parsed [Import [(''a.b'', None)] 1]\<rparr>]) = [(''a.b'', [''m''])]"
  by code_simp

section \<open>Edge consistency and internal nodes\<close>

text \<open>
  Claim C6. In the output of the builder, \<open>B\<close> is among the imports of \<open>A\<close> exactly
  when \<open>A\<close> is among the importers of \<open>B\<close>, for all \<open>A\<close> and \<open>B\<close>; a key that a dict
  does not have counts as an empty entry.
\<close>

theorem C6_edge_consistency:
  "B \<in> set (graph_get (dg_imports (build_dependency_graph set_iter files)) A) \<longleftrightarrow>
   A \<in> set (graph_get (dg_imported_by (build_dependency_graph set_iter files)) B)"
  using build_state_consistent [of set_iter files]
  by (simp add: build_dependency_graph_def Let_def graph_get_sorted)

theorem C6_edge_consistency_witness:
  "''a'' \<in> set (graph_get (dg_imports (build_dependency_graph id
     [\<lparr>sf_path = ([''a''], ''__init__.py''), sf_parse = Parsed []\<rparr>,
      \<lparr>sf_path = ([''a''], ''b.py''), sf_parse = Parsed []\<rparr>,
      \<lparr>sf_path = ([], ''m.py''), sf_parse = Parsed [Import [(''a.b'', None)] 1]\<rparr>])) ''m'') \<and>
   ''m'' \<in> set (graph_get (dg_imported_by (build_dependency_graph id
     [\<lparr>sf_path = ([''a''], ''__init__.py''), sf_parse = Parsed []\<rparr>,
      \<lparr>sf_path = ([''a''], ''b.py''), sf_parse = Parsed []\<rparr>,
      \<lparr>sf_path = ([], ''m.py''), sf_parse = Parsed [Import [(''a.b'', None)] 1]\<rparr>])) ''a'') \<and>
   ''a.b'' \<notin> set (graph_get (dg_imported_by (build_dependency_graph id
     [\<lparr>sf_path = ([''a''], ''__init__.py''), sf_parse = Parsed []\<rparr>,
      \<lparr>sf_path = ([''a''], ''b.py''), sf_parse = Parsed []\<rparr>,
      \<lparr>sf_path = ([], ''m.py''), sf_parse = Parsed [Import [(''a.b'', None)] 1]\<rparr>])) ''m'')"
proof -
  let ?G = "build_dependency_graph id
     [\<lparr>sf_path = ([''a''], ''__init__.py''), sf_parse = Parsed []\<rparr>,
      \<lparr>sf_path = ([''a''], ''b.py''), sf_parse = Parsed []\<rparr>,
      \<lparr>sf_path = ([], ''m.py''), sf_parse = Parsed [Import [(''a.b'', None)] 1]\<rparr>]"
  have a: "''a'' \<in> set (graph_get (dg_imports ?G) ''m'')" by code_simp
  have b: "''m'' \<notin> set (graph_get (dg_imports ?G) ''a.b'')" by code_simp
  from a have c: "''m'' \<in> set (graph_get (dg_imported_by ?G) ''a'')"
    using C6_edge_consistency [where A = "''m''" and B = "''a''"] by blast
  from b have d: "''a.b'' \<notin> set (graph_get (dg_imported_by ?G) ''m'')"
    using C6_edge_consistency [where A = "''a.b''" and B = "''m''"] by blast
  from a c d show ?thesis by (intro conjI)
qed

text \<open>
  Claim C10. When the iteration over \<open>internal_modules\<close> yields the elements of that
  set, every key and every element of a value of \<open>imports\<close> and of \<open>imported_by\<close> is
  an internal module identifier. An import that no internal identifier is a leading part
  of leaves both dicts as they are, and a relative import that does not resolve to an
  internal module leaves the whole state as it is.
\<close>

theorem C10_graph_nodes_internal:
  assumes "\<And>ks. set (set_iter ks) = set ks"
  shows "(\<forall>(a, bs) \<in> set (dg_imports (build_dependency_graph set_iter files)).
            a \<in> internal_modules_of files \<and> set bs \<subseteq> internal_modules_of files) \<and>
         (\<forall>(b, as) \<in> set (dg_imported_by (build_dependency_graph set_iter files)).
            b \<in> internal_modules_of files \<and> set as \<subseteq> internal_modules_of files) \<and>
         ((\<forall>i \<in> internal_modules_of files. \<not> startswith (imp_module imp) i) \<longrightarrow>
            imports_graph (process_import (set_iter (map fst (module_to_file_of (map sf_path files)))) a imp st) = imports_graph st \<and>
            imported_by (process_import (set_iter (map fst (module_to_file_of (map sf_path files)))) a imp st) = imported_by st) \<and>
         (fi_level fimp > 0 \<longrightarrow>
            (\<forall>r. resolve_relative_import fp (fi_module fimp) (fi_level fimp) = Some r \<longrightarrow>
                   r \<notin> internal_modules_of files) \<longrightarrow>
            process_from_import (set_iter (map fst (module_to_file_of (map sf_path files)))) fp a fimp st = st)"
proof -
  let ?ks = "map fst (module_to_file_of (map sf_path files))"
  have I: "internal_modules_of files = fst ` set (module_to_file_of (map sf_path files))"
    by (simp add: internal_modules_of_def)
  have ims: "set (set_iter ?ks) = internal_modules_of files"
    using assms [of ?ks] I by simp
  then have sub: "set (set_iter ?ks) \<subseteq> fst ` set (module_to_file_of (map sf_path files))"
    using I by simp
  have inv: "entries_fin (internal_modules_of files) (imports_graph (build_state_of set_iter files)) \<and>
             entries_fin (internal_modules_of files) (imported_by (build_state_of set_iter files))"
    using build_state_internal [of set_iter files] sub I by simp
  have 1: "\<forall>(a, bs) \<in> set (dg_imports (build_dependency_graph set_iter files)).
            a \<in> internal_modules_of files \<and> set bs \<subseteq> internal_modules_of files"
    using inv entries_sorted [of "internal_modules_of files" "imports_graph (build_state_of set_iter files)"]
    by (simp add: build_dependency_graph_def Let_def)
  have 2: "\<forall>(b, as) \<in> set (dg_imported_by (build_dependency_graph set_iter files)).
            b \<in> internal_modules_of files \<and> set as \<subseteq> internal_modules_of files"
    using inv entries_sorted [of "internal_modules_of files" "imported_by (build_state_of set_iter files)"]
    by (simp add: build_dependency_graph_def Let_def)
  have 3: "(\<forall>i \<in> internal_modules_of files. \<not> startswith (imp_module imp) i) \<longrightarrow>
            imports_graph (process_import (set_iter ?ks) a imp st) = imports_graph st \<and>
            imported_by (process_import (set_iter ?ks) a imp st) = imported_by st"
    by (simp add: process_import_def Let_def list_ex_iff ims)
  have 4: "fi_level fimp > 0 \<longrightarrow>
            (\<forall>r. resolve_relative_import fp (fi_module fimp) (fi_level fimp) = Some r \<longrightarrow>
                   r \<notin> internal_modules_of files) \<longrightarrow>
            process_from_import (set_iter ?ks) fp a fimp st = st"
    by (auto simp: process_from_import_def Let_def ims split: option.splits)
  from 1 2 3 4 show ?thesis by blast
qed

theorem C10_graph_nodes_internal_witness:
  "(\<forall>ks. set (rev ks) = set (ks :: string list)) \<and>
   internal_modules_of
     [\<lparr>sf_path = ([''a''], ''__init__.py''), sf_parse = Parsed []\<rparr>,
      \<lparr>sf_path = ([''a''], ''b.py''), sf_parse = Parsed []\<rparr>,
      \<lparr>sf_path = ([], ''m.py''), sf_parse = Parsed [Import [(''a.b'', None)] 1]\<rparr>] = {''a'', ''a.b'', ''m''} \<and>
   dg_imports (build_dependency_graph rev
     [\<lparr>sf_path = ([''a''], ''__init__.py''), sf_parse = Parsed []\<rparr>,
      \<lparr>sf_path = ([''a''], ''b.py''), sf_parse = Parsed []\<rparr>,
      \<lparr>sf_path = ([], ''m.py''), sf_parse = Parsed [Import [(''a.b'', None)] 1]\<rparr>]) = [(''m'', [''a.b''])] \<and>
   ''m'' \<in> internal_modules_of
     [\<lparr>sf_path = ([''a''], ''__init__.py''), sf_parse = Parsed []\<rparr>,
      \<lparr>sf_path = ([''a''], ''b.py''), sf_parse = Parsed []\<rparr>,
      \<lparr>sf_path = ([], ''m.py''), sf_parse = Parsed [Import [(''a.b'', None)] 1]\<rparr>] \<and>
   ''a.b'' \<in> internal_modules_of
     [\<lparr>sf_path = ([''a''], ''__init__.py''), sf_parse = Parsed []\<rparr>,
      \<lparr>sf_path = ([''a''], ''b.py''), sf_parse = Parsed []\<rparr>,
      \<lparr>sf_path = ([], ''m.py''), sf_parse = Parsed [Import [(''a.b'', None)] 1]\<rparr>] \<and>
   imports_graph (process_import (rev (map fst (module_to_file_of (map sf_path
     [\<lparr>sf_path = ([''a''], ''__init__.py''), sf_parse = Parsed []\<rparr>,
      \<lparr>sf_path = ([''a''], ''b.py''), sf_parse = Parsed []\<rparr>,
      \<lparr>sf_path = ([], ''m.py''), sf_parse = Parsed [Import [(''a.b'', None)] 1]\<rparr>])))) ''m''
      \<lparr>imp_module = ''os.path'', imp_alias = None, imp_line = 1\<rparr> empty_state) = [] \<and>
   resolve_relative_import ([], ''m.py'') ''x'' 1 = None \<and>
   process_from_import (rev (map fst (module_to_file_of (map sf_path
     [\<lparr>sf_path = ([''a''], ''__init__.py''), sf_parse = Parsed []\<rparr>,
      \<lparr>sf_path = ([''a''], ''b.py''), sf_parse = Parsed []\<rparr>,
      \<lparr>sf_path = ([], ''m.py''), sf_parse = Parsed [Import [(''a.b'', None)] 1]\<rparr>])))) ([], ''m.py'') ''m''
      \<lparr>fi_module = ''x'', fi_name = ''y'', fi_alias = None, fi_level = 1, fi_line = 1\<rparr>
      empty_state = empty_state"
proof -
  let ?F = "[\<lparr>sf_path = ([''a''], ''__init__.py''), sf_parse = Parsed []\<rparr>,
      \<lparr>sf_path = ([''a''], ''b.py''), sf_parse = Parsed []\<rparr>,
      \<lparr>sf_path = ([], ''m.py''), sf_parse = Parsed [Import [(''a.b'', None)] 1]\<rparr>]"
  let ?imp = "\<lparr>imp_module = ''os.path'', imp_alias = None, imp_line = 1\<rparr>"
  let ?fimp = "\<lparr>fi_module = ''x'', fi_name = ''y'', fi_alias = None, fi_level = 1, fi_line = 1\<rparr>"
  have h: "set (rev ks) = set ks" for ks :: "string list" by simp
  note t = C10_graph_nodes_internal
    [where set_iter = rev and files = ?F and imp = ?imp and a = "''m''" and st = empty_state
       and fimp = ?fimp and fp = "([], ''m.py'')", OF h]
  have I: "internal_modules_of ?F = {''a'', ''a.b'', ''m''}" by code_simp
  have g: "dg_imports (build_dependency_graph rev ?F) = [(''m'', [''a.b''])]" by code_simp
  have h3: "\<forall>i \<in> internal_modules_of ?F. \<not> startswith (imp_module ?imp) i"
    unfolding I by (simp add: startswith_def)
  have r: "resolve_relative_import ([], ''m.py'') ''x'' 1 = None"
    by (simp add: resolve_relative_import_def)
  have a: "''m'' \<in> internal_modules_of ?F \<and> ''a.b'' \<in> internal_modules_of ?F"
    using t [THEN conjunct1] unfolding g by simp
  have b: "imports_graph (process_import (rev (map fst (module_to_file_of (map sf_path ?F))))
             ''m'' ?imp empty_state) = []"
    using mp [OF t [THEN conjunct2, THEN conjunct2, THEN conjunct1] h3]
    by (simp add: empty_state_def)
  have c: "process_from_import (rev (map fst (module_to_file_of (map sf_path ?F))))
             ([], ''m.py'') ''m'' ?fimp empty_state = empty_state"
    using t [THEN conjunct2, THEN conjunct2, THEN conjunct2] r by simp
  from h I g a b r c show ?thesis by (intro conjI allI) simp_all
qed

section \<open>Parse failures\<close>



section \<open>Orphans\<close>

text \<open>
  Claim C4. The package initializer \<open>pkg/__init__.py\<close> has the module identifier
  \<open>pkg\<close>, which does not end in \<open>__init__\<close>, so the exemption of
  \<open>find_orphan_modules\<close> does not see it: with no importer it is reported as an orphan.
  The module file \<open>pkg/my__init__.py\<close>, which is no initializer and has no importer,
  is not reported.
\<close>

theorem C4_initializer_reported_as_orphan:
  "dg_modules (build_dependency_graph id
     [\<lparr>sf_path = ([''pkg''], ''__init__.py''), sf_parse = Parsed []\<rparr>,
      \<lparr>sf_path = ([''pkg''], ''mod.py''), sf_parse = Parsed []\<rparr>,
      \<lparr>sf_path = ([''pkg''], ''my__init__.py''), sf_parse = Parsed []\<rparr>]) =
     [(''pkg'', ([''pkg''], ''__init__.py'')), (''pkg.mod'', ([''pkg''], ''mod.py'')),
      (''pkg.my__init__'', ([''pkg''], ''my__init__.py''))] \<and>
   dg_imported_by (build_dependency_graph id
     [\<lparr>sf_path = ([''pkg''], ''__init__.py''), sf_parse = Parsed []\<rparr>,
      \<lparr>sf_path = ([''pkg''], ''mod.py''), sf_parse = Parsed []\<rparr>,
      \<lparr>sf_path = ([''pkg''], ''my__init__.py''), sf_parse = Parsed []\<rparr>]) = [] \<and>
   find_orphan_modules
     [(''pkg'', ([''pkg''], ''__init__.py'')), (''pkg.mod'', ([''pkg''], ''mod.py'')),
      (''pkg.my__init__'', ([''pkg''], ''my__init__.py''))] [] [] =
     [''pkg'', ''pkg.mod'']"
  by code_simp

section \<open>Hotspots\<close>

text \<open>
  Claim C9, as the claim states it, fails. The file \<open>m.py\<close> imports \<open>b\<close>, \<open>a\<close> and
  \<open>c\<close> in this order; with the threshold 1 the three modules are hotspots with one
  importer each, and they are reported in the order \<open>b\<close>, \<open>a\<close>, \<open>c\<close> of their first
  import, which is neither the ascending nor the descending order of the identifiers.
\<close>

theorem C9_tie_order_counterexample:
  "map (\<lambda>h. (hs_module h, imported_by_count h))
     (find_hotspots (dg_imported_by (build_dependency_graph id
        [\<lparr>sf_path = ([], ''a.py''), sf_parse = Parsed []\<rparr>,
         \<lparr>sf_path = ([], ''b.py''), sf_parse = Parsed []\<rparr>,
         \<lparr>sf_path = ([], ''c.py''), sf_parse = Parsed []\<rparr>,
         \<lparr>sf_path = ([], ''m.py''),
          sf_parse = Parsed [Import [(''b'', None)] 1, Import [(''a'', None)] 2,
                             Import [(''c'', None)] 3]\<rparr>])) 1) =
     [(''b'', 1), (''a'', 1), (''c'', 1)] \<and>
   \<not> sorted [''b'', ''a'', ''c''] \<and> \<not> sorted (rev [''b'', ''a'', ''c''])"
  by code_simp

text \<open>
  Claim C9, amended. \<open>find_hotspots\<close> reports exactly the entries of the reverse index
  with at least \<open>threshold\<close> importers, one record for each, in descending order of the
  importer count; entries with the same count stay in the order in which the reverse
  index holds them.
\<close>

theorem C9_hotspots:
  "set (find_hotspots ri t) = hotspot_of ` {e \<in> set ri. t \<le> int (length (snd e))} \<and>
   sorted (rev (map imported_by_count (find_hotspots ri t))) \<and>
   filter (\<lambda>h. imported_by_count h = k) (find_hotspots ri t) =
     filter (\<lambda>h. imported_by_count h = k)
       (map hotspot_of (filter (\<lambda>e. t \<le> int (length (snd e))) ri))"
proof -
  let ?c = "map hotspot_of (filter (\<lambda>e. t \<le> int (length (snd e))) ri)"
  let ?f = "\<lambda>h. - int (imported_by_count h)"
  have r: "find_hotspots ri t = sort_key ?f ?c"
    by (simp add: find_hotspots_alt sorted_reverse_def)
  have 1: "set (sort_key ?f ?c) = hotspot_of ` {e \<in> set ri. t \<le> int (length (snd e))}"
    by auto
  have s: "sorted (map ?f (sort_key ?f ?c))" by (rule sorted_sort_key)
  have 2: "sorted (rev (map imported_by_count xs))" if "sorted (map ?f xs)" for xs
    using that
  proof (induction xs)
    case (Cons x xs)
    then show ?case by (auto simp: sorted_append)
  qed simp
  have 3: "filter (\<lambda>h. imported_by_count h = k) (sort_key ?f ?c) =
           filter (\<lambda>h. imported_by_count h = k) ?c"
    using sort_key_stable [of ?f "- int k" ?c] by simp
  from 1 2 [OF s] 3 show ?thesis unfolding r by blast
qed

theorem C9_hotspots_witness:
  "set (find_hotspots
     [(''four'', [''a'', ''b'', ''c'', ''d'']), (''five'', [''a'', ''b'', ''c'', ''d'', ''e''])] 5) =
     {\<lparr>hs_module = ''five'', imported_by_count = 5,
       importers = [''a'', ''b'', ''c'', ''d'', ''e'']\<rparr>}"
proof -
  let ?ri = "[(''four'', [''a'', ''b'', ''c'', ''d'']), (''five'', [''a'', ''b'', ''c'', ''d'', ''e''])]"
  have "{e \<in> set ?ri. (5::int) \<le> int (length (snd e))} =
          {(''five'', [''a'', ''b'', ''c'', ''d'', ''e''])}"
    by auto
  with C9_hotspots [where ri = ?ri and t = 5, THEN conjunct1]
  show ?thesis by (simp add: hotspot_of_def)
qed

section \<open>Cycle detection\<close>




end
